theory Spec2Isabelle
  imports Complex_Main "HOL-Library.Sublist"
begin

section \<open>Strings\<close>

text \<open>
  A Python \<open>str\<close> is a sequence of code points and \<open>len\<close> counts them. A text is
  modelled as a \<open>string\<close> in which every \<open>char\<close> stands for one code point
  below 256, so that \<open>length\<close> is Python's \<open>len\<close>.
\<close>

definition is_space :: "char \<Rightarrow> bool" where
  \<comment> \<open>the code points below 256 that \<open>str.strip()\<close> removes: TAB, LF, VT, FF, CR,
      FS, GS, RS, US, SPACE, NEL and NBSP\<close>
  "is_space c =
     (let n = (of_char c :: nat)
      in (9 \<le> n \<and> n \<le> 13) \<or> (28 \<le> n \<and> n \<le> 32) \<or> n = 133 \<or> n = 160)"

definition strip :: "string \<Rightarrow> string" where
  \<comment> \<open>\<open>s.strip()\<close>\<close>
  "strip s = rev (dropWhile is_space (rev (dropWhile is_space s)))"

definition replace_newlines :: "string \<Rightarrow> string" where
  \<comment> \<open>\<open>text.replace('\n', ' ')\<close>\<close>
  "replace_newlines s = map (\<lambda>c. if c = CHR 0x0A then CHR '' '' else c) s"

fun split_dot_space :: "string \<Rightarrow> string list" where
  \<comment> \<open>\<open>s.split('. ')\<close>: cut at every occurrence of the separator found scanning from
      the left; the result always has at least one piece\<close>
  "split_dot_space [] = [[]]"
| "split_dot_space [c] = [[c]]"
| "split_dot_space (c # d # cs) =
     (if c = CHR ''.'' \<and> d = CHR '' '' then [] # split_dot_space cs
      else (case split_dot_space (d # cs) of
              p # ps \<Rightarrow> (c # p) # ps
            | [] \<Rightarrow> [[c]]))"

fun join_dot :: "string list \<Rightarrow> string" where
  \<comment> \<open>\<open>". ".join(xs)\<close>\<close>
  "join_dot [] = []"
| "join_dot [s] = s"
| "join_dot (s # t # ss) = s @ ''. '' @ join_dot (t # ss)"

definition py_slice_from :: "int \<Rightarrow> 'a list \<Rightarrow> 'a list" where
  \<comment> \<open>the slice \<open>xs[k:]\<close>: a negative \<open>k\<close> counts from the end, and the start is
      clipped to the list\<close>
  "py_slice_from k xs =
     (let n = int (length xs);
          start = (if k < 0 then max (n + k) 0 else min k n)
      in drop (nat start) xs)"

fun string_of_nat :: "nat \<Rightarrow> string" where
  \<comment> \<open>\<open>str(i)\<close> for a non-negative integer\<close>
  "string_of_nat n =
     (if n < 10 then [char_of (48 + n)]
      else string_of_nat (n div 10) @ [char_of (48 + n mod 10)])"

section \<open>The chunker\<close>

text \<open>
  \<open>intelligent_chunking\<close> of \<open>production-setup.py\<close>; the function of the same name in
  \<open>setup-production-system.py\<close> is the same text. A chunk is the dictionary the
  function builds.
\<close>

record chunk_info =
  c_text :: string
  c_sentence_count :: nat
  c_char_count :: nat
  c_start_sentence :: string
  c_end_sentence :: string

record chunker_state =
  chunks :: "chunk_info list"
  current_chunk :: string
  current_sentences :: "string list"

definition make_chunk :: "string \<Rightarrow> string list \<Rightarrow> chunk_info" where
  "make_chunk cur sents =
     \<lparr>c_text = strip cur,
      c_sentence_count = length sents,
      c_char_count = length cur,
      c_start_sentence = (if sents \<noteq> [] then hd sents else []),
      c_end_sentence = (if sents \<noteq> [] then last sents else [])\<rparr>"

definition test_chunk_of :: "string \<Rightarrow> string \<Rightarrow> string" where
  \<comment> \<open>\<open>current_chunk + ". " + sentence if current_chunk else sentence\<close>\<close>
  "test_chunk_of cur sentence = (if cur \<noteq> [] then cur @ ''. '' @ sentence else sentence)"

definition chunk_step :: "int \<Rightarrow> int \<Rightarrow> chunker_state \<Rightarrow> string \<Rightarrow> chunker_state" where
  \<comment> \<open>one iteration of the loop over \<open>sentences\<close>. \<open>test_chunk\<close> is computed before
      the overflow branch and assigned after it, as in the source; \<open>-overlap//50\<close> is
      \<open>(-overlap)//50\<close> in Python\<close>
  "chunk_step chunk_size overlap st raw =
     (let sentence = strip raw
      in if sentence = [] then st
         else
           (let test_chunk = test_chunk_of (current_chunk st) sentence;
                st' =
                  (if int (length test_chunk) > chunk_size \<and> current_chunk st \<noteq> [] then
                     (let overlap_sentences =
                            (if int (length (current_sentences st)) > overlap div 50
                             then py_slice_from ((- overlap) div 50) (current_sentences st)
                             else [])
                      in \<lparr>chunks = chunks st @ [make_chunk (current_chunk st) (current_sentences st)],
                          current_chunk = join_dot overlap_sentences,
                          current_sentences = overlap_sentences\<rparr>)
                   else st)
            in \<lparr>chunks = chunks st',
                current_chunk = test_chunk,
                current_sentences = current_sentences st' @ [sentence]\<rparr>))"

definition chunker_init :: chunker_state where
  "chunker_init = \<lparr>chunks = [], current_chunk = [], current_sentences = []\<rparr>"

definition chunker_finish :: "chunker_state \<Rightarrow> chunk_info list" where
  \<comment> \<open>the final \<open>if current_chunk.strip()\<close>\<close>
  "chunker_finish st =
     (if strip (current_chunk st) \<noteq> []
      then chunks st @ [make_chunk (current_chunk st) (current_sentences st)]
      else chunks st)"

definition intelligent_chunking :: "string \<Rightarrow> int \<Rightarrow> int \<Rightarrow> chunk_info list" where
  "intelligent_chunking txt chunk_size overlap =
     chunker_finish
       (foldl (chunk_step chunk_size overlap) chunker_init
          (split_dot_space (replace_newlines txt)))"

definition sentences_of :: "string \<Rightarrow> string list" where
  \<comment> \<open>the sentences the loop does not skip: the stripped, non-empty pieces\<close>
  "sentences_of txt =
     filter (\<lambda>s. s \<noteq> []) (map strip (split_dot_space (replace_newlines txt)))"

definition size_bound_ok :: "int \<Rightarrow> chunk_info \<Rightarrow> bool" where
  \<comment> \<open>the size bound on one chunk: within \<open>chunk_size\<close>, or a chunk of exactly one
      sentence, that sentence being its text and longer than \<open>chunk_size\<close>\<close>
  "size_bound_ok chunk_size c =
     (int (length (c_text c)) \<le> chunk_size \<or>
      (c_sentence_count c = 1 \<and> c_text c = c_start_sentence c \<and>
       int (length (c_text c)) > chunk_size))"

definition good :: "string \<Rightarrow> bool" where
  \<comment> \<open>a stripped, non-empty sentence\<close>
  "good s = (s \<noteq> [] \<and> \<not> is_space (hd s) \<and> \<not> is_space (last s))"

definition first_inv :: "string \<Rightarrow> int \<Rightarrow> chunker_state \<Rightarrow> bool" where
  \<comment> \<open>loop invariant for the first chunk of a text whose first sentence is \<open>f\<close>\<close>
  "first_inv f cs st =
     (if chunks st = []
      then current_chunk st \<noteq> [] \<and>
           ((current_sentences st = [f] \<and> current_chunk st = f) \<or>
            int (length (current_chunk st)) \<le> cs)
      else size_bound_ok cs (hd (chunks st)) \<and>
           (int (length (c_text (hd (chunks st)))) \<le> cs \<or> c_text (hd (chunks st)) = f))"

section \<open>The vector database\<close>

text \<open>
  \<open>ProductionVectorDB\<close> of \<open>production-setup.py\<close>. The sentence-embedding model and
  the FAISS index are libraries outside the repository. What the code asks of them is
  collected in a record of collaborators, over which every statement below is
  universally quantified:
  \<^item> \<open>encode\<close> is \<open>model.encode\<close> followed by the division by the row norms, on a list of
    texts: the list of vectors (of an arbitrary type \<open>'v\<close>), or an exception;
  \<^item> \<open>py_hash\<close> is Python's \<open>hash\<close> on strings, which is salted per process;
  \<^item> \<open>index_search\<close> is \<open>index.search(queries, k)\<close>: for each query the row of
    \<open>(score, id)\<close> pairs that \<open>zip(scores[i], indices[i])\<close> runs through, or an exception.
    A slot without a neighbour carries the id \<open>-1\<close>.
  The id layer of the index, \<open>faiss.IndexIDMap\<close>, is modelled by what it stores: the
  list of \<open>(id, vector)\<close> pairs in insertion order. An exception is the value of
  \<open>str(e)\<close>; only exceptions that \<open>except Exception\<close> catches are modelled.
\<close>

datatype exn = Exn string

type_synonym 'v faiss_index = "(int \<times> 'v) list"

record 'v collaborators =
  encode :: "string list \<Rightarrow> exn + 'v list"
  py_hash :: "string \<Rightarrow> int"
  index_search :: "'v faiss_index \<Rightarrow> 'v list \<Rightarrow> int \<Rightarrow> exn + (real \<times> int) list list"

definition add_with_ids :: "'v faiss_index \<Rightarrow> 'v list \<Rightarrow> int list \<Rightarrow> exn + 'v faiss_index" where
  \<comment> \<open>\<open>index.add_with_ids(vectors, ids)\<close> of FAISS: the Python wrapper asserts that there
      are as many ids as vectors, and \<open>IndexIDMap\<close> appends the vectors and their ids; it
      does not look at the ids already stored\<close>
  "add_with_ids idx vecs ids =
     (if length ids \<noteq> length vecs then Inl (Exn ''not same nb of vectors as ids'')
      else Inr (idx @ zip ids vecs))"

record document =
  d_id :: string
  d_name :: "string option"
  d_type :: "string option"
  d_content :: "string option"

record chunk_meta =
  m_doc_id :: string
  m_chunk_id :: string
  m_chunk_index :: nat
  m_document_name :: string
  m_document_type :: string
  m_content :: string
  m_sentence_count :: nat
  m_char_count :: nat
  m_embedding_id :: int

record 'v vector_db =
  index :: "'v faiss_index option"
  chunk_metadata :: "chunk_meta list"

definition vector_db_init :: "'v vector_db" where
  \<comment> \<open>\<open>__init__\<close>: \<open>self.index = None\<close>, \<open>self.chunk_metadata = []\<close>\<close>
  "vector_db_init = \<lparr>index = None, chunk_metadata = []\<rparr>"

datatype process_result =
    Completed string nat nat  \<comment> \<open>status \<open>completed\<close>: doc_id, chunks_created, embeddings_generated\<close>
  | Status_error string       \<comment> \<open>status \<open>error\<close>: message\<close>

definition chunk_id_of :: "string \<Rightarrow> nat \<Rightarrow> string" where
  \<comment> \<open>\<open>f"{doc_id}_chunk_{i}"\<close>\<close>
  "chunk_id_of doc_id i = doc_id @ ''_chunk_'' @ string_of_nat i"

definition numeric_id :: "'v collaborators \<Rightarrow> string \<Rightarrow> int" where
  \<comment> \<open>\<open>hash(chunk_id) % (2**31)\<close>\<close>
  "numeric_id env cid = py_hash env cid mod 2 ^ 31"

definition chunk_record :: "document \<Rightarrow> nat \<Rightarrow> chunk_info \<Rightarrow> string \<Rightarrow> int \<Rightarrow> chunk_meta" where
  \<comment> \<open>the metadata dictionary of one chunk (without its timestamp)\<close>
  "chunk_record doc i chunk cid nid =
     \<lparr>m_doc_id = d_id doc,
      m_chunk_id = cid,
      m_chunk_index = i,
      m_document_name = (case d_name doc of None \<Rightarrow> ''Unknown'' | Some n \<Rightarrow> n),
      m_document_type = (case d_type doc of None \<Rightarrow> ''unknown'' | Some t \<Rightarrow> t),
      m_content = c_text chunk,
      m_sentence_count = c_sentence_count chunk,
      m_char_count = c_char_count chunk,
      m_embedding_id = nid\<rparr>"

definition failed :: "string \<Rightarrow> exn \<Rightarrow> process_result" where
  \<comment> \<open>the \<open>except Exception as e\<close> branch of \<open>process_document_async\<close>\<close>
  "failed doc_id e =
     (case e of Exn msg \<Rightarrow> Status_error (''Failed to process document '' @ doc_id @ '': '' @ msg))"

definition process_document_async ::
  "'v collaborators \<Rightarrow> 'v vector_db \<Rightarrow> document \<Rightarrow> process_result \<times> 'v vector_db" where
  \<comment> \<open>returns the result dictionary (its status, counts and message) and the new state.
      The summary and key points of the result are computed after the state is final, by
      string functions that do not raise and do not touch the state; they are left out\<close>
  "process_document_async env db doc =
     (let doc_id = d_id doc;
          content = (case d_content doc of None \<Rightarrow> [] | Some c \<Rightarrow> c)
      in if content = [] then (Status_error ''No content to process'', db)
         else
           (let chunks = intelligent_chunking content 512 64;
                chunk_texts = map c_text chunks
            in case encode env chunk_texts of
                 Inl e \<Rightarrow> (failed doc_id e, db)
               | Inr embeddings \<Rightarrow>
                   (let idx = (case index db of None \<Rightarrow> [] | Some i \<Rightarrow> i);
                        chunk_ids = map (chunk_id_of doc_id) [0..<length chunks];
                        numeric_ids = map (numeric_id env) chunk_ids
                    in case add_with_ids idx embeddings numeric_ids of
                         Inl e \<Rightarrow> (failed doc_id e, db\<lparr>index := Some idx\<rparr>)
                       | Inr idx' \<Rightarrow>
                           (Completed doc_id (length chunks) (length embeddings),
                            \<lparr>index = Some idx',
                             chunk_metadata = chunk_metadata db @
                               map (\<lambda>i. chunk_record doc i (chunks ! i) (chunk_ids ! i) (numeric_ids ! i))
                                 [0..<length chunks]\<rparr>))))"

definition entries :: "'v vector_db \<Rightarrow> 'v faiss_index" where
  \<comment> \<open>the entries of the index; an index not yet created has none\<close>
  "entries db = (case index db of None \<Rightarrow> [] | Some idx \<Rightarrow> idx)"

definition ids_aligned :: "'v vector_db \<Rightarrow> bool" where
  \<comment> \<open>index and metadata are paired: the ids of the index entries are, in order, the
      embedding ids of the metadata records\<close>
  "ids_aligned db = (map fst (entries db) = map m_embedding_id (chunk_metadata db))"

subsection \<open>Search\<close>

record result_item =
  r_content :: string
  r_document_name :: string
  r_document_type :: string
  r_chunk_index :: nat
  r_similarity_score :: real
  r_doc_id :: string
  r_chunk_id :: string

definition result_of :: "chunk_meta \<Rightarrow> real \<Rightarrow> result_item" where
  "result_of m score =
     \<lparr>r_content = m_content m,
      r_document_name = m_document_name m,
      r_document_type = m_document_type m,
      r_chunk_index = m_chunk_index m,
      r_similarity_score = score,
      r_doc_id = m_doc_id m,
      r_chunk_id = m_chunk_id m\<rparr>"

fun resolve_hits :: "chunk_meta list \<Rightarrow> (real \<times> int) list \<Rightarrow> result_item list" where
  \<comment> \<open>the loop over \<open>zip(scores[0], indices[0])\<close>; the inner loop stops at the first
      record with the embedding id, and appends nothing when there is none\<close>
  "resolve_hits metas [] = []"
| "resolve_hits metas ((score, idx) # hits) =
     (if idx \<noteq> - 1
      then (case find (\<lambda>m. m_embedding_id m = idx) metas of
              Some m \<Rightarrow> [result_of m score]
            | None \<Rightarrow> [])
      else []) @ resolve_hits metas hits"

definition search_body ::
  "'v collaborators \<Rightarrow> 'v faiss_index \<Rightarrow> chunk_meta list \<Rightarrow> string \<Rightarrow> int \<Rightarrow> exn + result_item list" where
  \<comment> \<open>the body of the \<open>try\<close> of \<open>semantic_search\<close>\<close>
  "search_body env idx metas query k =
     (case encode env [query] of
        Inl e \<Rightarrow> Inl e
      | Inr query_embedding \<Rightarrow>
          (case index_search env idx query_embedding k of
             Inl e \<Rightarrow> Inl e
           | Inr rows \<Rightarrow>
               (case rows of
                  [] \<Rightarrow> Inl (Exn ''index 0 is out of bounds'')
                | row # _ \<Rightarrow> Inr (resolve_hits metas row))))"

definition semantic_search ::
  "'v collaborators \<Rightarrow> 'v vector_db \<Rightarrow> string \<Rightarrow> int \<Rightarrow> exn + result_item list" where
  \<comment> \<open>\<open>Inl\<close> would be an exception reaching the caller\<close>
  "semantic_search env db query k =
     (case index db of
        None \<Rightarrow> Inr []
      | Some idx \<Rightarrow>
          if chunk_metadata db = [] then Inr []
          else (case search_body env idx (chunk_metadata db) query k of
                  Inl e \<Rightarrow> Inr []
                | Inr results \<Rightarrow> Inr results))"

definition resolvable :: "chunk_meta list \<Rightarrow> real \<times> int \<Rightarrow> bool" where
  \<comment> \<open>a hit that is not the sentinel and whose id is the embedding id of some record\<close>
  "resolvable metas hit = (snd hit \<noteq> - 1 \<and> snd hit \<in> m_embedding_id ` set metas)"

text \<open>
  \<open>search_similar\<close> of \<open>setup-vector-db.py\<close> (class \<open>VectorDBSetup\<close>): it has no
  \<open>try\<close>, tests the index only, and finds the record of a hit by hashing the chunk
  ids again.
\<close>

record document_meta =
  dm_doc_id :: string
  dm_chunk_id :: string
  dm_chunk_index :: nat
  dm_document_name :: string
  dm_document_type :: string
  dm_content :: string

record similar_item =
  si_content :: string
  si_document_name :: string
  si_document_type :: string
  si_chunk_index :: nat
  si_similarity_score :: real

record 'v vector_db_setup =
  setup_index :: "'v faiss_index option"
  document_metadata :: "document_meta list"

definition vector_db_setup_init :: "'v vector_db_setup" where
  "vector_db_setup_init = \<lparr>setup_index = None, document_metadata = []\<rparr>"

definition similar_of :: "document_meta \<Rightarrow> real \<Rightarrow> similar_item" where
  "similar_of m score =
     \<lparr>si_content = dm_content m,
      si_document_name = dm_document_name m,
      si_document_type = dm_document_type m,
      si_chunk_index = dm_chunk_index m,
      si_similarity_score = score\<rparr>"

fun resolve_similar ::
  "'v collaborators \<Rightarrow> document_meta list \<Rightarrow> (real \<times> int) list \<Rightarrow> similar_item list" where
  "resolve_similar env metas [] = []"
| "resolve_similar env metas ((score, idx) # hits) =
     (if idx \<noteq> - 1
      then (case find (\<lambda>m. numeric_id env (dm_chunk_id m) = idx) metas of
              Some m \<Rightarrow> [similar_of m score]
            | None \<Rightarrow> [])
      else []) @ resolve_similar env metas hits"

definition search_similar ::
  "'v collaborators \<Rightarrow> 'v vector_db_setup \<Rightarrow> string \<Rightarrow> int \<Rightarrow> exn + similar_item list" where
  "search_similar env db query k =
     (case setup_index db of
        None \<Rightarrow> Inr []
      | Some idx \<Rightarrow>
          (case encode env [query] of
             Inl e \<Rightarrow> Inl e
           | Inr query_embedding \<Rightarrow>
               (case index_search env idx query_embedding k of
                  Inl e \<Rightarrow> Inl e
                | Inr rows \<Rightarrow>
                    (case rows of
                       [] \<Rightarrow> Inl (Exn ''index 0 is out of bounds'')
                     | row # _ \<Rightarrow> Inr (resolve_similar env (document_metadata db) row)))))"

subsection \<open>Answer synthesis\<close>

text \<open>
  \<open>answer_question\<close> of \<open>setup-production-system.py\<close> (class
  \<open>ScriblProductionSystem\<close>, whose \<open>semantic_search\<close> is the one above with the
  extractor's metadata added to each result). The language model is a collaborator:
  \<open>None\<close> when no API key is set, otherwise the function from the system and user
  prompts to the text of the first choice, or an exception.
\<close>

record source_item =
  src_document :: string
  src_type :: string
  src_similarity :: real
  src_excerpt :: string

record answer =
  ans_answer :: string
  ans_sources :: "source_item list"
  ans_confidence :: real

fun join_str :: "string \<Rightarrow> string list \<Rightarrow> string" where
  \<comment> \<open>\<open>sep.join(xs)\<close>\<close>
  "join_str sep [] = []"
| "join_str sep [s] = s"
| "join_str sep (s # t # ss) = s @ sep @ join_str sep (t # ss)"

definition newline :: string where
  "newline = [CHR 0x0A]"

definition insufficient_answer :: answer where
  "insufficient_answer =
     \<lparr>ans_answer = ''I don't have enough information in the knowledge base to answer this question.'',
      ans_sources = [],
      ans_confidence = 0\<rparr>"

definition error_answer :: answer where
  "error_answer =
     \<lparr>ans_answer = ''I encountered an error while processing your question. Please try again.'',
      ans_sources = [],
      ans_confidence = 0\<rparr>"

definition system_prompt :: string where
  "system_prompt = ''You are a helpful research assistant. Answer the user's question based on the provided context. Be accurate and cite your sources. If the context doesn't contain enough information, say so clearly.''"

definition context_of :: "result_item list \<Rightarrow> string" where
  "context_of relevant_chunks =
     join_str (newline @ newline)
       (map (\<lambda>chunk. ''Source: '' @ r_document_name chunk @ '' ('' @ r_document_type chunk @ '')''
                       @ newline @ r_content chunk)
          relevant_chunks)"

definition user_prompt :: "string \<Rightarrow> string \<Rightarrow> string" where
  "user_prompt context question =
     ''Context:'' @ newline @ context @ newline @ newline @ ''Question: '' @ question
       @ newline @ newline
       @ ''Please provide a comprehensive answer based on the context above.''"

definition fallback_answer :: "string \<Rightarrow> result_item list \<Rightarrow> string" where
  \<comment> \<open>the answer built without a language model, from \<open>relevant_chunks[:3]\<close>\<close>
  "fallback_answer question relevant_chunks =
     ''Based on the available sources, here are the most relevant excerpts related to ''
       @ [CHR 0x27] @ question @ [CHR 0x27] @ '':'' @ newline @ newline
       @ concat (map (\<lambda>(i, chunk). string_of_nat i @ ''. From '' @ r_document_name chunk @ '': ''
                        @ take 200 (r_content chunk) @ ''...'' @ newline @ newline)
                   (zip [1..<4] (take 3 relevant_chunks)))"

definition source_of :: "result_item \<Rightarrow> source_item" where
  "source_of chunk =
     \<lparr>src_document = r_document_name chunk,
      src_type = r_document_type chunk,
      src_similarity = r_similarity_score chunk,
      src_excerpt = (if length (r_content chunk) > 200 then take 200 (r_content chunk) @ ''...''
                     else r_content chunk)\<rparr>"

definition answer_question ::
  "'v collaborators \<Rightarrow> (string \<Rightarrow> string \<Rightarrow> exn + string) option \<Rightarrow> 'v vector_db \<Rightarrow> string \<Rightarrow> int
     \<Rightarrow> answer" where
  \<comment> \<open>every exception inside the function is caught by its \<open>except Exception\<close>, which
      returns the error answer\<close>
  "answer_question env llm db question context_limit =
     (case semantic_search env db question context_limit of
        Inl e \<Rightarrow> error_answer
      | Inr relevant_chunks \<Rightarrow>
          (case relevant_chunks of
             [] \<Rightarrow> insufficient_answer
           | best # _ \<Rightarrow>
               (let context = context_of relevant_chunks;
                    generated =
                      (case llm of
                         Some llm_complete \<Rightarrow>
                           (case llm_complete system_prompt (user_prompt context question) of
                              Inl e \<Rightarrow> Inl e
                            | Inr content \<Rightarrow> Inr (strip content))
                       | None \<Rightarrow> Inr (fallback_answer question relevant_chunks))
                in case generated of
                     Inl e \<Rightarrow> error_answer
                   | Inr text_of_answer \<Rightarrow>
                       \<lparr>ans_answer = text_of_answer,
                        ans_sources = map source_of relevant_chunks,
                        ans_confidence = min (r_similarity_score best) 1\<rparr>)))"

definition clamp01 :: "real \<Rightarrow> real" where
  \<comment> \<open>clamping to the interval from 0 to 1, from below and from above\<close>
  "clamp01 x = max 0 (min x 1)"

subsection \<open>Sample collaborators and inputs\<close>

text \<open>
  Concrete collaborators for the examples: the embedding of a text is its length, the
  hash of a string is its length, and the index answers every search with one given row
  of hits.
\<close>

definition sample_env :: "(real \<times> int) list \<Rightarrow> nat collaborators" where
  "sample_env hits =
     \<lparr>encode = (\<lambda>texts. Inr (map length texts)),
      py_hash = (\<lambda>s. int (length s)),
      index_search = (\<lambda>idx queries k. Inr [hits])\<rparr>"

definition broken_env :: "nat collaborators" where
  \<comment> \<open>an embedder that raises\<close>
  "broken_env =
     \<lparr>encode = (\<lambda>texts. Inl (Exn ''model unavailable'')),
      py_hash = (\<lambda>s. int (length s)),
      index_search = (\<lambda>idx queries k. Inl (Exn ''search failed''))\<rparr>"

definition doc1 :: document where
  "doc1 =
     \<lparr>d_id = ''d1'', d_name = Some ''Notes'', d_type = Some ''pdf'',
      d_content = Some ''Sentence one. Sentence two.''\<rparr>"

definition meta1 :: chunk_meta where
  \<comment> \<open>the record of the only chunk of \<open>doc1\<close>\<close>
  "meta1 =
     \<lparr>m_doc_id = ''d1'', m_chunk_id = ''d1_chunk_0'', m_chunk_index = 0,
      m_document_name = ''Notes'', m_document_type = ''pdf'',
      m_content = ''Sentence one. Sentence two.'',
      m_sentence_count = 2, m_char_count = 27, m_embedding_id = 10\<rparr>"

definition db1 :: "nat vector_db" where
  \<comment> \<open>the state after \<open>doc1\<close> has been processed once from the initial state\<close>
  "db1 = \<lparr>index = Some [(10, 27)], chunk_metadata = [meta1]\<rparr>"

text \<open>
  Two more documents, and the state after \<open>doc1\<close>, \<open>doc2\<close> and \<open>doc3\<close> have been
  processed from the initial state.
\<close>

definition doc2 :: document where
  "doc2 =
     \<lparr>d_id = ''d22'', d_name = Some ''Paper'', d_type = Some ''url'',
      d_content = Some ''Alpha beta. Gamma.''\<rparr>"

definition doc3 :: document where
  "doc3 =
     \<lparr>d_id = ''d333'', d_name = Some ''Talk'', d_type = Some ''youtube'',
      d_content = Some ''Delta.''\<rparr>"

definition meta2 :: chunk_meta where
  "meta2 =
     \<lparr>m_doc_id = ''d22'', m_chunk_id = ''d22_chunk_0'', m_chunk_index = 0,
      m_document_name = ''Paper'', m_document_type = ''url'',
      m_content = ''Alpha beta. Gamma.'',
      m_sentence_count = 2, m_char_count = 18, m_embedding_id = 11\<rparr>"

definition meta3 :: chunk_meta where
  "meta3 =
     \<lparr>m_doc_id = ''d333'', m_chunk_id = ''d333_chunk_0'', m_chunk_index = 0,
      m_document_name = ''Talk'', m_document_type = ''youtube'',
      m_content = ''Delta.'',
      m_sentence_count = 1, m_char_count = 6, m_embedding_id = 12\<rparr>"

definition db3 :: "nat vector_db" where
  "db3 = \<lparr>index = Some [(10, 27), (11, 18), (12, 6)], chunk_metadata = [meta1, meta2, meta3]\<rparr>"

subsection \<open>Names for the statements\<close>

definition index_row :: "'v collaborators \<Rightarrow> 'v vector_db \<Rightarrow> string \<Rightarrow> int \<Rightarrow> (real \<times> int) list" where
  \<comment> \<open>the row of hits that \<open>semantic_search\<close> iterates over; empty when it returns before
      the loop\<close>
  "index_row env db query k =
     (case index db of
        None \<Rightarrow> []
      | Some idx \<Rightarrow>
          if chunk_metadata db = [] then []
          else (case encode env [query] of
                  Inl e \<Rightarrow> []
                | Inr query_embedding \<Rightarrow>
                    (case index_search env idx query_embedding k of
                       Inl e \<Rightarrow> []
                     | Inr rows \<Rightarrow> (case rows of [] \<Rightarrow> [] | row # _ \<Rightarrow> row))))"

definition doc_chunks :: "document \<Rightarrow> chunk_info list" where
  \<comment> \<open>the chunks \<open>process_document_async\<close> makes of a document\<close>
  "doc_chunks doc =
     intelligent_chunking (case d_content doc of None \<Rightarrow> [] | Some c \<Rightarrow> c) 512 64"

definition doc_numeric_ids :: "'v collaborators \<Rightarrow> document \<Rightarrow> int list" where
  \<comment> \<open>\<open>numeric_ids\<close>: the external id of each chunk of the document\<close>
  "doc_numeric_ids env doc =
     map (\<lambda>i. numeric_id env (chunk_id_of (d_id doc) i)) [0..<length (doc_chunks doc)]"

definition doc_records :: "'v collaborators \<Rightarrow> document \<Rightarrow> chunk_meta list" where
  \<comment> \<open>the metadata records appended for the document\<close>
  "doc_records env doc =
     map (\<lambda>i. chunk_record doc i (doc_chunks doc ! i) (chunk_id_of (d_id doc) i)
                (numeric_id env (chunk_id_of (d_id doc) i)))
       [0..<length (doc_chunks doc)]"

section \<open>Properties of the string functions\<close>

lemma strip_length_le: "length (strip s) \<le> length s"
proof -
  have "length (dropWhile is_space (rev (dropWhile is_space s))) \<le> length (rev (dropWhile is_space s))"
    by (rule length_dropWhile_le)
  also have "\<dots> \<le> length s" by (simp add: length_dropWhile_le)
  finally show ?thesis by (simp add: strip_def)
qed

lemma dropWhile_id_hd: "xs \<noteq> [] \<Longrightarrow> \<not> P (hd xs) \<Longrightarrow> dropWhile P xs = xs"
  by (cases xs) auto

lemma strip_id: "s \<noteq> [] \<Longrightarrow> \<not> is_space (hd s) \<Longrightarrow> \<not> is_space (last s) \<Longrightarrow> strip s = s"
  by (simp add: strip_def dropWhile_id_hd hd_rev)

lemma hd_dropWhile_not: "dropWhile P xs \<noteq> [] \<Longrightarrow> \<not> P (hd (dropWhile P xs))"
  by (metis hd_dropWhile)

lemma strip_ends:
  assumes "strip s \<noteq> []"
  shows "\<not> is_space (hd (strip s))" and "\<not> is_space (last (strip s))"
proof -
  let ?a = "dropWhile is_space s"
  let ?b = "dropWhile is_space (rev ?a)"
  from assms have b: "?b \<noteq> []" by (simp add: strip_def)
  then have hb: "\<not> is_space (hd ?b)" by (rule hd_dropWhile_not)
  then show "\<not> is_space (last (strip s))" using b by (simp add: strip_def last_rev)
  from b have "rev ?a \<noteq> []" by (metis dropWhile.simps(1))
  then have a: "?a \<noteq> []" by (metis rev.simps(1))
  then have ha: "\<not> is_space (hd ?a)" by (rule hd_dropWhile_not)
  obtain ys where ys: "rev ?a = ys @ ?b"
    by (metis takeWhile_dropWhile_id)
  then have "?a = rev ?b @ rev ys" by (metis rev_append rev_rev_ident)
  with b have "hd (rev ?b) = hd ?a" by (metis hd_append2 rev_is_Nil_conv)
  with ha show "\<not> is_space (hd (strip s))" by (simp add: strip_def)
qed

lemma strip_idem: "strip (strip s) = strip s"
proof (cases "strip s = []")
  case True
  have e: "strip [] = []" by (simp add: strip_def)
  show ?thesis by (simp only: True e)
next
  case False then show ?thesis by (simp add: strip_id strip_ends)
qed

section \<open>Properties of the chunker\<close>

lemma good_strip: "good s \<Longrightarrow> strip s = s"
  by (simp add: good_def strip_id)

lemma strip_good: "strip s \<noteq> [] \<Longrightarrow> good (strip s)"
  by (simp add: good_def strip_ends)

lemma sentences_of_good: "list_all good (sentences_of txt)"
  by (auto simp: sentences_of_def list_all_iff strip_good)

lemma chunk_step_raw:
  "chunk_step cs ov st raw = (if strip raw = [] then st else chunk_step cs ov st (strip raw))"
  by (simp add: chunk_step_def strip_idem)

lemma foldl_chunk_step_sentences:
  "foldl (chunk_step cs ov) st raws =
   foldl (chunk_step cs ov) st (filter (\<lambda>s. s \<noteq> []) (map strip raws))"
proof (induction raws arbitrary: st)
  case Nil
  show ?case by simp
next
  case (Cons r raws)
  show ?case
  proof (cases "strip r = []")
    case True
    then have "chunk_step cs ov st r = st" by (simp add: chunk_step_def)
    with True Cons show ?thesis by simp
  next
    case False
    then have "chunk_step cs ov st r = chunk_step cs ov st (strip r)"
      using chunk_step_raw [of cs ov st r] by simp
    with False Cons show ?thesis by simp
  qed
qed

lemma intelligent_chunking_sentences:
  "intelligent_chunking txt cs ov =
   chunker_finish (foldl (chunk_step cs ov) chunker_init (sentences_of txt))"
  unfolding intelligent_chunking_def sentences_of_def
  by (subst foldl_chunk_step_sentences) (rule refl)

lemma current_chunk_step:
  "good s \<Longrightarrow> current_chunk (chunk_step cs ov st s) = test_chunk_of (current_chunk st) s"
  by (simp add: chunk_step_def good_strip Let_def) (simp add: good_def)

lemma chunks_step:
  "good s \<Longrightarrow> chunks (chunk_step cs ov st s) =
     (if int (length (test_chunk_of (current_chunk st) s)) > cs \<and> current_chunk st \<noteq> []
      then chunks st @ [make_chunk (current_chunk st) (current_sentences st)]
      else chunks st)"
  by (simp add: chunk_step_def good_strip Let_def) (simp add: good_def)


lemma join_dot_Cons: "join_dot ((cur @ ''. '' @ s) # ss) = cur @ ''. '' @ join_dot (s # ss)"
  by (cases ss) simp_all





lemma make_chunk_small:
  "int (length cur) \<le> cs \<Longrightarrow> int (length (c_text (make_chunk cur sents))) \<le> cs"
  using strip_length_le [of cur] by (simp add: make_chunk_def)

lemma make_chunk_single:
  "good f \<Longrightarrow> make_chunk f [f] =
     \<lparr>c_text = f, c_sentence_count = 1, c_char_count = length f,
      c_start_sentence = f, c_end_sentence = f\<rparr>"
  by (simp add: make_chunk_def good_strip)

lemma first_inv_init: "good f \<Longrightarrow> first_inv f cs (chunk_step cs ov chunker_init f)"
  by (simp add: first_inv_def chunks_step current_chunk_step chunker_init_def test_chunk_of_def)
     (simp add: chunk_step_def good_strip Let_def test_chunk_of_def good_def)

lemma first_inv_step:
  assumes f: "good f" and s: "good s" and inv: "first_inv f cs st"
  shows "first_inv f cs (chunk_step cs ov st s)"
proof (cases "chunks st = []")
  case False
  then have "hd (chunks (chunk_step cs ov st s)) = hd (chunks st)"
    and "chunks (chunk_step cs ov st s) \<noteq> []"
    using s by (simp_all add: chunks_step)
  with False inv show ?thesis by (simp add: first_inv_def)
next
  case True
  with inv have cur: "current_chunk st \<noteq> []"
    and alt: "(current_sentences st = [f] \<and> current_chunk st = f) \<or>
              int (length (current_chunk st)) \<le> cs"
    by (simp_all add: first_inv_def)
  let ?t = "test_chunk_of (current_chunk st) s"
  have t: "?t \<noteq> []" using cur by (simp add: test_chunk_of_def)
  show ?thesis
  proof (cases "int (length ?t) > cs")
    case over: True
    then have ch: "chunks (chunk_step cs ov st s) =
        [make_chunk (current_chunk st) (current_sentences st)]"
      using s cur True by (simp add: chunks_step)
    from alt show ?thesis
    proof
      assume "current_sentences st = [f] \<and> current_chunk st = f"
      then have "make_chunk (current_chunk st) (current_sentences st) =
         \<lparr>c_text = f, c_sentence_count = 1, c_char_count = length f,
          c_start_sentence = f, c_end_sentence = f\<rparr>"
        using f by (simp add: make_chunk_single)
      with ch show ?thesis by (auto simp: first_inv_def size_bound_ok_def)
    next
      assume "int (length (current_chunk st)) \<le> cs"
      then have "int (length (c_text (make_chunk (current_chunk st) (current_sentences st)))) \<le> cs"
        by (rule make_chunk_small)
      with ch show ?thesis by (simp add: first_inv_def size_bound_ok_def)
    qed
  next
    case under: False
    then have "chunks (chunk_step cs ov st s) = []"
      using s True by (simp add: chunks_step)
    moreover have "current_chunk (chunk_step cs ov st s) = ?t"
      using s by (simp add: current_chunk_step)
    ultimately show ?thesis using under t by (simp add: first_inv_def)
  qed
qed

lemma first_inv_foldl:
  "good f \<Longrightarrow> list_all good ss \<Longrightarrow> first_inv f cs st \<Longrightarrow>
   first_inv f cs (foldl (chunk_step cs ov) st ss)"
  by (induction ss arbitrary: st) (simp_all add: first_inv_step)

lemma first_inv_finish:
  assumes f: "good f" and inv: "first_inv f cs st" and fin: "chunker_finish st = c # rest"
  shows "size_bound_ok cs c \<and> (int (length (c_text c)) \<le> cs \<or> c_text c = f)"
proof (cases "chunks st = []")
  case False
  then have "hd (chunker_finish st) = hd (chunks st)"
    by (simp add: chunker_finish_def)
  with fin have "hd (chunks st) = c" by simp
  with False inv show ?thesis by (simp add: first_inv_def)
next
  case True
  with inv have alt: "(current_sentences st = [f] \<and> current_chunk st = f) \<or>
              int (length (current_chunk st)) \<le> cs"
    by (simp add: first_inv_def)
  from True fin have c: "c = make_chunk (current_chunk st) (current_sentences st)"
    by (simp add: chunker_finish_def split: if_splits)
  from alt show ?thesis
  proof
    assume "current_sentences st = [f] \<and> current_chunk st = f"
    with c f show ?thesis by (auto simp: make_chunk_single size_bound_ok_def)
  next
    assume "int (length (current_chunk st)) \<le> cs"
    then have "int (length (c_text (make_chunk (current_chunk st) (current_sentences st)))) \<le> cs"
      by (rule make_chunk_small)
    with c show ?thesis by (simp add: size_bound_ok_def)
  qed
qed

lemma chunker_finish_init: "chunker_finish chunker_init = []"
  by (simp add: chunker_finish_def chunker_init_def strip_def)





section \<open>The claims about the chunker\<close>

text \<open>
  C1 (as stated): every chunk emitted is at most \<open>chunk_size\<close> characters long, except a
  chunk of exactly one sentence that alone exceeds \<open>chunk_size\<close>. This fails: on the four
  one-letter sentences of \<open>a. b. c. d\<close> with \<open>chunk_size = 4\<close> and the default overlap,
  the second chunk is \<open>a. b. c\<close>, three sentences and seven characters. Its sentences
  are the two overlap sentences and the new one: what is carried over into a chunk is
  not tested against \<open>chunk_size\<close>.
\<close>

theorem size_bound_counterexample:
  "intelligent_chunking ''a. b. c. d'' 4 64 =
     [\<lparr>c_text = ''a. b'', c_sentence_count = 2, c_char_count = 4,
       c_start_sentence = ''a'', c_end_sentence = ''b''\<rparr>,
      \<lparr>c_text = ''a. b. c'', c_sentence_count = 3, c_char_count = 7,
       c_start_sentence = ''a'', c_end_sentence = ''c''\<rparr>,
      \<lparr>c_text = ''a. b. c. d'', c_sentence_count = 3, c_char_count = 10,
       c_start_sentence = ''b'', c_end_sentence = ''d''\<rparr>] \<and>
   \<not> list_all (size_bound_ok 4) (intelligent_chunking ''a. b. c. d'' 4 64)"
  by code_simp

text \<open>
  C1 (amended): the first chunk emitted for a text is at most \<open>chunk_size\<close> characters
  long, except when it consists of exactly one sentence, the first sentence of the text,
  whose length alone exceeds \<open>chunk_size\<close>. The overflow test runs on the accumulated
  text before a sentence is appended to it, and the first chunk is accumulated under
  that test only.
\<close>

theorem first_chunk_size_bound:
  assumes "intelligent_chunking txt chunk_size overlap = c # rest"
  shows "size_bound_ok chunk_size c \<and>
         (int (length (c_text c)) \<le> chunk_size \<or> c_text c = hd (sentences_of txt))"
proof (cases "sentences_of txt")
  case Nil
  with assms show ?thesis
    by (simp add: intelligent_chunking_sentences chunker_finish_init)
next
  case (Cons f ss)
  have "list_all good (sentences_of txt)" by (rule sentences_of_good)
  with Cons have f: "good f" and ss: "list_all good ss" by simp_all
  have "first_inv f chunk_size
          (foldl (chunk_step chunk_size overlap) (chunk_step chunk_size overlap chunker_init f) ss)"
    using f ss by (intro first_inv_foldl first_inv_init)
  moreover have "chunker_finish
          (foldl (chunk_step chunk_size overlap) (chunk_step chunk_size overlap chunker_init f) ss)
        = c # rest"
    using assms Cons by (simp add: intelligent_chunking_sentences)
  ultimately show ?thesis using f Cons first_inv_finish by fastforce
qed

theorem first_chunk_size_bound_witness:
  "intelligent_chunking ''Sentence one. Sentence two. Sentence three.'' 15 64 =
     [\<lparr>c_text = ''Sentence one'', c_sentence_count = 1, c_char_count = 12,
       c_start_sentence = ''Sentence one'', c_end_sentence = ''Sentence one''\<rparr>,
      \<lparr>c_text = ''Sentence one. Sentence two'', c_sentence_count = 1, c_char_count = 26,
       c_start_sentence = ''Sentence two'', c_end_sentence = ''Sentence two''\<rparr>,
      \<lparr>c_text = ''Sentence one. Sentence two. Sentence three.'', c_sentence_count = 1,
       c_char_count = 43, c_start_sentence = ''Sentence three.'',
       c_end_sentence = ''Sentence three.''\<rparr>] \<and>
   size_bound_ok 15
     \<lparr>c_text = ''Sentence one'', c_sentence_count = 1, c_char_count = 12,
      c_start_sentence = ''Sentence one'', c_end_sentence = ''Sentence one''\<rparr>"
proof -
  have e: "intelligent_chunking ''Sentence one. Sentence two. Sentence three.'' 15 64 =
     \<lparr>c_text = ''Sentence one'', c_sentence_count = 1, c_char_count = 12,
      c_start_sentence = ''Sentence one'', c_end_sentence = ''Sentence one''\<rparr> #
     [\<lparr>c_text = ''Sentence one. Sentence two'', c_sentence_count = 1, c_char_count = 26,
       c_start_sentence = ''Sentence two'', c_end_sentence = ''Sentence two''\<rparr>,
      \<lparr>c_text = ''Sentence one. Sentence two. Sentence three.'', c_sentence_count = 1,
       c_char_count = 43, c_start_sentence = ''Sentence three.'',
       c_end_sentence = ''Sentence three.''\<rparr>]"
    by code_simp
  from first_chunk_size_bound [OF e] e show ?thesis by simp
qed

text \<open>
  C2: each chunk after the first begins with exactly the trailing \<open>n\<close> sentences of the
  previous chunk, re-joined, and with nothing when \<open>n = 0\<close>. The code computes that seed
  and then overwrites it with the \<open>test_chunk\<close> built from the chunk just closed. With
  \<open>overlap = 50\<close> (one sentence) the second chunk of \<open>a. b. c. d\<close> has the text
  \<open>a. b. c\<close>, the whole first chunk and the new sentence, while its own sentence list
  starts at \<open>b\<close>; with \<open>overlap = 0\<close> the texts are the same.
\<close>

theorem overlap_seed_discarded:
  "intelligent_chunking ''a. b. c. d'' 4 50 =
     [\<lparr>c_text = ''a. b'', c_sentence_count = 2, c_char_count = 4,
       c_start_sentence = ''a'', c_end_sentence = ''b''\<rparr>,
      \<lparr>c_text = ''a. b. c'', c_sentence_count = 2, c_char_count = 7,
       c_start_sentence = ''b'', c_end_sentence = ''c''\<rparr>,
      \<lparr>c_text = ''a. b. c. d'', c_sentence_count = 2, c_char_count = 10,
       c_start_sentence = ''c'', c_end_sentence = ''d''\<rparr>] \<and>
   map c_text (intelligent_chunking ''a. b. c. d'' 4 0) = [''a. b'', ''a. b. c'', ''a. b. c. d'']"
  by code_simp



section \<open>Properties of insertion and search\<close>

lemma semantic_search_total: "\<exists>rs. semantic_search env db q k = Inr rs"
  by (simp add: semantic_search_def split: option.splits sum.splits)

lemma semantic_search_row:
  "semantic_search env db q k = Inr (resolve_hits (chunk_metadata db) (index_row env db q k))"
  by (simp add: semantic_search_def search_body_def index_row_def
           split: option.splits sum.splits list.splits)

lemma semantic_search_hits:
  assumes "index db = Some idx" and "chunk_metadata db \<noteq> []"
    and "encode env [q] = Inr qe" and "index_search env idx qe k = Inr (row # rows)"
  shows "semantic_search env db q k = Inr (resolve_hits (chunk_metadata db) row)"
  using assms by (simp add: semantic_search_def search_body_def)

lemma find_embedding_id_None:
  "(find (\<lambda>m. m_embedding_id m = i) metas = None) = (i \<notin> m_embedding_id ` set metas)"
  by (auto simp: find_None_iff)

lemma resolve_hits_filter:
  "resolve_hits metas (filter (resolvable metas) hits) = resolve_hits metas hits"
proof (induction hits)
  case Nil
  show ?case by simp
next
  case (Cons h hits)
  obtain score i where h: "h = (score, i)" by (cases h)
  show ?case
  proof (cases "resolvable metas h")
    case True
    with Cons show ?thesis by (simp add: h)
  next
    case False
    then have "i = - 1 \<or> find (\<lambda>m. m_embedding_id m = i) metas = None"
      by (simp add: h resolvable_def find_embedding_id_None)
    then have "resolve_hits metas (h # hits) = resolve_hits metas hits"
      by (auto simp: h)
    with False Cons show ?thesis by simp
  qed
qed

lemma resolve_hits_scores:
  "map r_similarity_score (resolve_hits metas hits) = map fst (filter (resolvable metas) hits)"
proof (induction hits)
  case Nil
  show ?case by simp
next
  case (Cons h hits)
  obtain score i where h: "h = (score, i)" by (cases h)
  show ?case
  proof (cases "resolvable metas h")
    case True
    then obtain m where "find (\<lambda>m. m_embedding_id m = i) metas = Some m"
      using find_embedding_id_None [of i metas] by (auto simp: h resolvable_def)
    with True Cons show ?thesis by (simp add: h resolvable_def result_of_def)
  next
    case False
    then have "i = - 1 \<or> find (\<lambda>m. m_embedding_id m = i) metas = None"
      by (simp add: h resolvable_def find_embedding_id_None)
    then have "resolve_hits metas (h # hits) = resolve_hits metas hits"
      by (auto simp: h)
    with False Cons show ?thesis by simp
  qed
qed

lemma non_increasing_filter:
  "sorted_wrt (\<ge>) (map fst hits) \<Longrightarrow> sorted_wrt (\<ge>) (map fst (filter P hits))"
  by (simp add: sorted_wrt_map sorted_wrt_filter)

lemma resolve_hits_concat:
  "resolve_hits metas hits = concat (map (\<lambda>h. resolve_hits metas [h]) hits)"
  by (induction hits) auto

lemma aligned_empty_index:
  "entries db = [] \<Longrightarrow> ids_aligned db \<Longrightarrow> chunk_metadata db = []"
  by (simp add: ids_aligned_def)

lemma doc_records_ids: "map m_embedding_id (doc_records env doc) = doc_numeric_ids env doc"
  by (simp add: doc_records_def doc_numeric_ids_def chunk_record_def)

lemma length_doc_numeric_ids: "length (doc_numeric_ids env doc) = length (doc_chunks doc)"
  by (simp add: doc_numeric_ids_def)

lemma process_document_success:
  assumes "d_content doc = Some content" and "content \<noteq> []"
    and "encode env (map c_text (doc_chunks doc)) = Inr vecs"
    and "length vecs = length (doc_chunks doc)"
  shows "process_document_async env db doc =
     (Completed (d_id doc) (length (doc_chunks doc)) (length vecs),
      \<lparr>index = Some (entries db @ zip (doc_numeric_ids env doc) vecs),
       chunk_metadata = chunk_metadata db @ doc_records env doc\<rparr>)"
  using assms
  by (simp add: process_document_async_def doc_chunks_def doc_numeric_ids_def doc_records_def
        add_with_ids_def entries_def Let_def cong: map_cong)

lemma process_document_cases:
  obtains (completed) vecs where
      "length vecs = length (doc_chunks doc)"
      "process_document_async env db doc =
         (Completed (d_id doc) (length (doc_chunks doc)) (length vecs),
          \<lparr>index = Some (entries db @ zip (doc_numeric_ids env doc) vecs),
           chunk_metadata = chunk_metadata db @ doc_records env doc\<rparr>)"
  | (error) msg db' where
      "process_document_async env db doc = (Status_error msg, db')"
      "entries db' = entries db" "chunk_metadata db' = chunk_metadata db"
proof (cases "d_content doc = None \<or> d_content doc = Some []")
  case True
  then have "process_document_async env db doc = (Status_error ''No content to process'', db)"
    by (auto simp: process_document_async_def)
  then show ?thesis by (rule error) simp_all
next
  case False
  then obtain content where c: "d_content doc = Some content" "content \<noteq> []" by auto
  show ?thesis
  proof (cases "encode env (map c_text (doc_chunks doc))")
    case (Inl e)
    obtain m where "e = Exn m" by (cases e)
    with Inl c have "process_document_async env db doc =
        (Status_error (''Failed to process document '' @ d_id doc @ '': '' @ m), db)"
      by (simp add: process_document_async_def doc_chunks_def failed_def Let_def)
    then show ?thesis by (rule error) simp_all
  next
    case (Inr vecs)
    show ?thesis
    proof (cases "length vecs = length (doc_chunks doc)")
      case True
      with c Inr show ?thesis by (intro completed [of vecs] process_document_success)
    next
      case False
      with Inr c have "process_document_async env db doc =
          (Status_error (''Failed to process document '' @ d_id doc
                           @ '': not same nb of vectors as ids''),
           db\<lparr>index := Some (entries db)\<rparr>)"
        by (auto simp: process_document_async_def doc_chunks_def failed_def Let_def
              add_with_ids_def entries_def)
      then show ?thesis by (rule error) (simp_all add: entries_def)
    qed
  qed
qed

text \<open>
  Index and metadata stay paired along any sequence of documents processed from the
  initial state, whether the calls succeed or not.
\<close>

lemma ids_aligned_step:
  "ids_aligned db \<Longrightarrow> ids_aligned (snd (process_document_async env db doc))"
proof (cases rule: process_document_cases [of doc env db])
  case (completed vecs)
  assume "ids_aligned db"
  with completed show ?thesis
    by (simp add: ids_aligned_def entries_def doc_records_ids length_doc_numeric_ids)
next
  case (error msg db')
  assume "ids_aligned db"
  with error show ?thesis by (simp add: ids_aligned_def)
qed

lemma ids_aligned_run:
  "ids_aligned db \<Longrightarrow>
   ids_aligned (foldl (\<lambda>db doc. snd (process_document_async env db doc)) db docs)"
  by (induction docs arbitrary: db) (simp_all add: ids_aligned_step)

lemma ids_aligned_from_init:
  "ids_aligned (foldl (\<lambda>db doc. snd (process_document_async env db doc)) vector_db_init docs)"
  by (rule ids_aligned_run) (simp add: ids_aligned_def vector_db_init_def entries_def)

text \<open>
  Whatever the hash function, some two distinct chunk ids get the same external id:
  there are infinitely many chunk ids and \<open>2 ^ 31\<close> external ids.
\<close>

lemma numeric_id_collision:
  "\<exists>a b. a \<noteq> b \<and> chunk_id_of a 0 \<noteq> chunk_id_of b 0 \<and>
         numeric_id env (chunk_id_of a 0) = numeric_id env (chunk_id_of b 0)"
proof -
  let ?f = "\<lambda>a. numeric_id env (chunk_id_of a 0)"
  have "range ?f \<subseteq> {0..<2 ^ 31}" by (auto simp: numeric_id_def)
  then have "finite (range ?f)" by (rule finite_subset) simp
  moreover have "infinite (UNIV :: string set)" by (rule infinite_UNIV_listI)
  ultimately have "\<not> inj ?f" using finite_imageD by blast
  then obtain a b where "a \<noteq> b" "?f a = ?f b" by (auto simp: inj_on_def)
  moreover from \<open>a \<noteq> b\<close> have "chunk_id_of a 0 \<noteq> chunk_id_of b 0"
    by (simp add: chunk_id_of_def)
  ultimately show ?thesis by blast
qed

section \<open>The claims about the index and the metadata store\<close>




text \<open>
  C4 (as stated): an add of a batch with an external id already in the index raises an
  IndexInconsistency error and leaves the index as it was. This fails: the id 10 is in
  the index, the batch of the document is the id 10, and the call completes with the
  index grown.
\<close>

theorem duplicate_id_accepted:
  "10 \<in> fst ` set (entries db1) \<and>
   doc_numeric_ids (sample_env []) doc1 = [10] \<and>
   process_document_async (sample_env []) db1 doc1 =
     (Completed ''d1'' 1 1,
      \<lparr>index = Some [(10, 27), (10, 27)], chunk_metadata = [meta1, meta1]\<rparr>)"
  by code_simp

text \<open>
  C4 (amended): the code has no check for duplicate ids. A batch with an id that is
  already in the index is appended like any other when the embedder returns one vector
  per chunk: the call completes, index and metadata grow by the batch, and the id is in
  the index at least twice. A call that reports the status \<open>error\<close> leaves the entries
  of the index and the metadata as they were.
\<close>

theorem duplicate_ids_appended:
  "(d_content doc = Some content \<and> content \<noteq> [] \<and>
    encode env (map c_text (doc_chunks doc)) = Inr vecs \<and>
    length vecs = length (doc_chunks doc) \<and>
    i \<in> set (doc_numeric_ids env doc) \<and> i \<in> fst ` set (entries db) \<longrightarrow>
      process_document_async env db doc =
        (Completed (d_id doc) (length (doc_chunks doc)) (length vecs),
         \<lparr>index = Some (entries db @ zip (doc_numeric_ids env doc) vecs),
          chunk_metadata = chunk_metadata db @ doc_records env doc\<rparr>) \<and>
      2 \<le> length (filter (\<lambda>e. fst e = i) (entries db @ zip (doc_numeric_ids env doc) vecs))) \<and>
   (fst (process_document_async env db doc) = Status_error msg \<longrightarrow>
      entries (snd (process_document_async env db doc)) = entries db \<and>
      chunk_metadata (snd (process_document_async env db doc)) = chunk_metadata db)"
proof (intro conjI impI)
  assume a: "d_content doc = Some content \<and> content \<noteq> [] \<and>
    encode env (map c_text (doc_chunks doc)) = Inr vecs \<and>
    length vecs = length (doc_chunks doc) \<and>
    i \<in> set (doc_numeric_ids env doc) \<and> i \<in> fst ` set (entries db)"
  then have c: "d_content doc = Some content" "content \<noteq> []"
    "encode env (map c_text (doc_chunks doc)) = Inr vecs"
    "length vecs = length (doc_chunks doc)"
    by blast+
  then show "process_document_async env db doc =
        (Completed (d_id doc) (length (doc_chunks doc)) (length vecs),
         \<lparr>index = Some (entries db @ zip (doc_numeric_ids env doc) vecs),
          chunk_metadata = chunk_metadata db @ doc_records env doc\<rparr>)"
    by (rule process_document_success)
  from a have "length (doc_numeric_ids env doc) = length vecs"
    by (simp add: length_doc_numeric_ids)
  then have "map fst (zip (doc_numeric_ids env doc) vecs) = doc_numeric_ids env doc"
    by simp
  with a have "i \<in> fst ` set (zip (doc_numeric_ids env doc) vecs)"
    by (metis set_map)
  then have "filter (\<lambda>e. fst e = i) (zip (doc_numeric_ids env doc) vecs) \<noteq> []"
    by (auto simp: filter_empty_conv)
  moreover from a have "filter (\<lambda>e. fst e = i) (entries db) \<noteq> []"
    by (auto simp: filter_empty_conv)
  ultimately show
    "2 \<le> length (filter (\<lambda>e. fst e = i) (entries db @ zip (doc_numeric_ids env doc) vecs))"
    by (cases "filter (\<lambda>e. fst e = i) (entries db)";
        cases "filter (\<lambda>e. fst e = i) (zip (doc_numeric_ids env doc) vecs)") simp_all
next
  assume "fst (process_document_async env db doc) = Status_error msg"
  then show "entries (snd (process_document_async env db doc)) = entries db"
    by (cases rule: process_document_cases [of doc env db]) simp_all
next
  assume "fst (process_document_async env db doc) = Status_error msg"
  then show "chunk_metadata (snd (process_document_async env db doc)) = chunk_metadata db"
    by (cases rule: process_document_cases [of doc env db]) simp_all
qed

theorem duplicate_ids_appended_witness:
  "process_document_async (sample_env []) db1 doc1 =
     (Completed ''d1'' 1 1,
      \<lparr>index = Some (entries db1 @ zip (doc_numeric_ids (sample_env []) doc1) [27]),
       chunk_metadata = chunk_metadata db1 @ doc_records (sample_env []) doc1\<rparr>) \<and>
   2 \<le> length (filter (\<lambda>e. fst e = 10) (entries db1 @ zip (doc_numeric_ids (sample_env []) doc1) [27]))"
proof -
  have 1: "d_content doc1 = Some ''Sentence one. Sentence two.'' \<and>
           ''Sentence one. Sentence two.'' \<noteq> []"
    by (simp add: doc1_def)
  have 2: "encode (sample_env []) (map c_text (doc_chunks doc1)) = Inr [27] \<and>
           length [27::nat] = length (doc_chunks doc1)"
    by code_simp
  have 3: "10 \<in> set (doc_numeric_ids (sample_env []) doc1) \<and> 10 \<in> fst ` set (entries db1)"
    by code_simp
  have 4: "d_id doc1 = ''d1'' \<and> length (doc_chunks doc1) = 1"
    by code_simp
  from duplicate_ids_appended
         [of doc1 "''Sentence one. Sentence two.''" "sample_env []" "[27]" 10 db1] 1 2 3
  have "process_document_async (sample_env []) db1 doc1 =
        (Completed (d_id doc1) (length (doc_chunks doc1)) (length [27::nat]),
         \<lparr>index = Some (entries db1 @ zip (doc_numeric_ids (sample_env []) doc1) [27]),
          chunk_metadata = chunk_metadata db1 @ doc_records (sample_env []) doc1\<rparr>) \<and>
      2 \<le> length (filter (\<lambda>e. fst e = 10)
                    (entries db1 @ zip (doc_numeric_ids (sample_env []) doc1) [27]))"
    by blast
  with 4 show ?thesis by simp
qed

section \<open>The claims about search\<close>

text \<open>
  C5 (as stated): a hit whose id resolves to no metadata record makes the search
  surface an internal error; the hit is never silently dropped. This fails: the index
  returns a hit with the id 7, no record has that embedding id, and the search returns
  the other hit alone, without an error.
\<close>

theorem unresolved_hit_dropped:
  "7 \<notin> m_embedding_id ` set (chunk_metadata db1) \<and>
   semantic_search (sample_env [(9/10, 7), (1/2, 10)]) db1 ''q'' 2 = Inr [result_of meta1 (1/2)]"
  by (simp add: semantic_search_def search_body_def sample_env_def db1_def meta1_def)

text \<open>
  C5 (amended): a hit whose id resolves to no metadata record is skipped: the search
  returns, without an error, the results of the hits that resolve, one result per
  such hit.
\<close>

theorem unresolved_hits_skipped:
  assumes "index db = Some idx" and "chunk_metadata db \<noteq> []"
    and "encode env [q] = Inr qe" and "index_search env idx qe k = Inr (row # rows)"
  shows "semantic_search env db q k =
           Inr (resolve_hits (chunk_metadata db) (filter (resolvable (chunk_metadata db)) row)) \<and>
         length (resolve_hits (chunk_metadata db) row) =
           length (filter (resolvable (chunk_metadata db)) row)"
proof -
  have "length (resolve_hits (chunk_metadata db) row) =
        length (map r_similarity_score (resolve_hits (chunk_metadata db) row))"
    by simp
  also have "\<dots> = length (filter (resolvable (chunk_metadata db)) row)"
    by (simp only: resolve_hits_scores length_map)
  finally show ?thesis
    using assms by (simp add: semantic_search_hits resolve_hits_filter)
qed

theorem unresolved_hits_skipped_witness:
  "semantic_search (sample_env [(9/10, 7), (1/2, 10)]) db1 ''q'' 2 =
     Inr (resolve_hits [meta1] [(1/2, 10)])"
proof -
  have f: "filter (resolvable (chunk_metadata db1)) [(9/10, 7), (1/2, 10)] = [(1/2, 10)]"
    by (simp add: resolvable_def db1_def meta1_def)
  have "semantic_search (sample_env [(9/10, 7), (1/2, 10)]) db1 ''q'' 2 =
     Inr (resolve_hits (chunk_metadata db1)
            (filter (resolvable (chunk_metadata db1)) [(9/10, 7), (1/2, 10)]))"
    using unresolved_hits_skipped
            [of db1 "[(10, 27)]" "sample_env [(9/10, 7), (1/2, 10)]" "''q''" "[1]" 2
                "[(9/10, 7), (1/2, 10)]" "[]"]
    by (simp add: db1_def sample_env_def)
  then show ?thesis by (simp only: f) (simp add: db1_def)
qed

text \<open>
  C7: a search before any insertion returns the empty list and raises nothing: in the
  initial state of \<open>ProductionVectorDB\<close>, in every paired state whose index is absent
  or has no entries, and in the initial state of \<open>VectorDBSetup\<close>.
\<close>

theorem search_before_insertion_empty:
  "semantic_search env vector_db_init q k = Inr [] \<and>
   (entries db = [] \<and> ids_aligned db \<longrightarrow> semantic_search env db q k = Inr []) \<and>
   search_similar env vector_db_setup_init q k = Inr []"
proof (intro conjI impI)
  show "semantic_search env vector_db_init q k = Inr []"
    by (simp add: semantic_search_def vector_db_init_def)
  show "search_similar env vector_db_setup_init q k = Inr []"
    by (simp add: search_similar_def vector_db_setup_init_def)
next
  assume "entries db = [] \<and> ids_aligned db"
  then have "chunk_metadata db = []" by (simp add: aligned_empty_index)
  then show "semantic_search env db q k = Inr []"
    by (simp add: semantic_search_def split: option.splits)
qed

theorem search_before_insertion_empty_witness:
  "semantic_search (sample_env [(1, 3)]) \<lparr>index = Some [], chunk_metadata = []\<rparr> ''q'' 5 = Inr []"
proof -
  have "entries \<lparr>index = Some ([] :: nat faiss_index), chunk_metadata = []\<rparr> = [] \<and>
        ids_aligned \<lparr>index = Some ([] :: nat faiss_index), chunk_metadata = []\<rparr>"
    by (simp add: entries_def ids_aligned_def)
  with search_before_insertion_empty
         [of "sample_env [(1, 3)]" "''q''" 5 "\<lparr>index = Some [], chunk_metadata = []\<rparr>"]
  show ?thesis by blast
qed

text \<open>
  The results of a search are the results of the hits of the index row, each hit giving
  at most one result, in the order of the row and with the scores of the row: the
  search neither sorts nor rescores. So the results are non-increasing in score when
  the row the index returned is.
\<close>

lemma results_follow_index_row:
  "(\<exists>rs. semantic_search env db q k = Inr rs \<and>
         rs = concat (map (\<lambda>hit. resolve_hits (chunk_metadata db) [hit]) (index_row env db q k)) \<and>
         map r_similarity_score rs =
           map fst (filter (resolvable (chunk_metadata db)) (index_row env db q k)) \<and>
         (sorted_wrt (\<ge>) (map fst (index_row env db q k)) \<longrightarrow>
            sorted_wrt (\<ge>) (map r_similarity_score rs)))"
proof -
  let ?rs = "resolve_hits (chunk_metadata db) (index_row env db q k)"
  have "semantic_search env db q k = Inr ?rs"
    by (rule semantic_search_row)
  moreover have "?rs = concat (map (\<lambda>hit. resolve_hits (chunk_metadata db) [hit])
                                  (index_row env db q k))"
    by (rule resolve_hits_concat)
  moreover have "map r_similarity_score ?rs =
      map fst (filter (resolvable (chunk_metadata db)) (index_row env db q k))"
    by (rule resolve_hits_scores)
  moreover have "sorted_wrt (\<ge>) (map fst (index_row env db q k)) \<longrightarrow>
      sorted_wrt (\<ge>) (map r_similarity_score ?rs)"
    by (simp add: resolve_hits_scores non_increasing_filter)
  ultimately show ?thesis by blast
qed

lemma results_follow_index_row_example:
  "semantic_search (sample_env [(9/10, 10), (7/10, 7), (1/2, 10)]) db1 ''q'' 3 =
     Inr [result_of meta1 (9/10), result_of meta1 (1/2)] \<and>
   sorted_wrt (\<ge>) (map r_similarity_score [result_of meta1 (9/10), result_of meta1 (1/2)])"
proof -
  have r: "index_row (sample_env [(9/10, 10), (7/10, 7), (1/2, 10)]) db1 ''q'' 3 =
        [(9/10, 10), (7/10, 7), (1/2, 10)]"
    by (simp add: index_row_def sample_env_def db1_def)
  have s: "sorted_wrt (\<ge>) (map fst [(9/10 :: real, 10 :: int), (7/10, 7), (1/2, 10)])"
    by simp
  have e: "concat (map (\<lambda>hit. resolve_hits (chunk_metadata db1) [hit])
                    [(9/10, 10), (7/10, 7), (1/2, 10)]) =
        [result_of meta1 (9/10), result_of meta1 (1/2)]"
    by (simp add: db1_def meta1_def)
  from results_follow_index_row
         [of "sample_env [(9/10, 10), (7/10, 7), (1/2, 10)]" db1 "''q''" 3]
  obtain rs where
    a: "semantic_search (sample_env [(9/10, 10), (7/10, 7), (1/2, 10)]) db1 ''q'' 3 = Inr rs" and
    b: "rs = concat (map (\<lambda>hit. resolve_hits (chunk_metadata db1) [hit])
               (index_row (sample_env [(9/10, 10), (7/10, 7), (1/2, 10)]) db1 ''q'' 3))" and
    c: "sorted_wrt (\<ge>)
          (map fst (index_row (sample_env [(9/10, 10), (7/10, 7), (1/2, 10)]) db1 ''q'' 3)) \<longrightarrow>
        sorted_wrt (\<ge>) (map r_similarity_score rs)"
    by blast
  from b have rs: "rs = [result_of meta1 (9/10), result_of meta1 (1/2)]"
    by (simp only: r e)
  from c s have "sorted_wrt (\<ge>) (map r_similarity_score rs)"
    by (simp only: r)
  with a rs show ?thesis by simp
qed

text \<open>
  C8: the results of a search are non-increasing in similarity score, in the order in
  which the index returned them. The order is kept, as shown above, but the scores do
  not decrease. \<open>create_optimized_index\<close> builds \<open>faiss.IndexHNSWFlat(dimension, 32)\<close>
  without a metric, and the default metric of FAISS is the squared L2 distance, not the
  inner product: the index returns the nearest vectors first, with ascending distances,
  and the search stores these distances as \<open>similarity_score\<close>. On the store of the
  three documents, with the chunks at the distances 0, 2 and 4 from the query (a vector
  equal, orthogonal and opposite to it, after the normalisation), the scores of the
  results are 0, 2, 4.
\<close>

theorem distance_scores_ascend:
  "foldl (\<lambda>db doc. snd (process_document_async (sample_env [(0, 10), (2, 11), (4, 12)]) db doc))
     vector_db_init [doc1, doc2, doc3] = db3 \<and>
   semantic_search (sample_env [(0, 10), (2, 11), (4, 12)]) db3 ''q'' 3 =
     Inr [result_of meta1 0, result_of meta2 2, result_of meta3 4] \<and>
   map r_similarity_score [result_of meta1 0, result_of meta2 2, result_of meta3 4] = [0, 2, 4] \<and>
   \<not> sorted_wrt (\<ge>) (map r_similarity_score [result_of meta1 0, result_of meta2 2, result_of meta3 4])"
proof (intro conjI)
  show "foldl (\<lambda>db doc. snd (process_document_async (sample_env [(0, 10), (2, 11), (4, 12)]) db doc))
     vector_db_init [doc1, doc2, doc3] = db3"
    by code_simp
  show "semantic_search (sample_env [(0, 10), (2, 11), (4, 12)]) db3 ''q'' 3 =
     Inr [result_of meta1 0, result_of meta2 2, result_of meta3 4]"
    by (simp add: semantic_search_def search_body_def sample_env_def db3_def
          meta1_def meta2_def meta3_def)
  show "map r_similarity_score [result_of meta1 0, result_of meta2 2, result_of meta3 4] = [0, 2, 4]"
    by (simp add: result_of_def)
  show "\<not> sorted_wrt (\<ge>) (map r_similarity_score [result_of meta1 0, result_of meta2 2, result_of meta3 4])"
    by (simp add: result_of_def)
qed

text \<open>
  C10: \<open>semantic_search\<close> never passes an exception to its caller; when the embedder
  or the index raises, the result is the empty list.
\<close>

theorem semantic_search_never_raises:
  "(\<exists>rs. semantic_search env db q k = Inr rs) \<and>
   (encode env [q] = Inl e \<longrightarrow> semantic_search env db q k = Inr []) \<and>
   (index db = Some idx \<and> encode env [q] = Inr qe \<and> index_search env idx qe k = Inl e \<longrightarrow>
      semantic_search env db q k = Inr []) \<and>
   (index db = Some idx \<and> search_body env idx (chunk_metadata db) q k = Inl e \<longrightarrow>
      semantic_search env db q k = Inr [])"
  by (auto simp: semantic_search_def search_body_def split: option.splits sum.splits list.splits)

theorem semantic_search_never_raises_witness:
  "encode broken_env [''q''] = Inl (Exn ''model unavailable'') \<and>
   semantic_search broken_env db1 ''q'' 3 = Inr []"
proof -
  have "encode broken_env [''q''] = Inl (Exn ''model unavailable'')"
    by (simp add: broken_env_def)
  with semantic_search_never_raises [of broken_env db1 "''q''" 3 "Exn ''model unavailable''"]
  show ?thesis by blast
qed

section \<open>The claim about answer synthesis\<close>

text \<open>
  C6 (as stated): the confidence reported is the top result's score clamped to the
  interval from 0 to 1, and 0 for an empty result set. This fails twice: when the
  language model raises, the confidence is 0 although the top score is 0.8; and a top
  score of -0.5 is reported as -0.5.
\<close>

theorem confidence_not_clamped:
  "semantic_search (sample_env [(8/10, 10)]) db1 ''What?'' 5 = Inr [result_of meta1 (8/10)] \<and>
   ans_confidence
     (answer_question (sample_env [(8/10, 10)]) (Some (\<lambda>sys usr. Inl (Exn ''timeout'')))
        db1 ''What?'' 5) = 0 \<and>
   clamp01 (8/10) = 8/10 \<and>
   semantic_search (sample_env [(- (1/2), 10)]) db1 ''What?'' 5 = Inr [result_of meta1 (- (1/2))] \<and>
   ans_confidence (answer_question (sample_env [(- (1/2), 10)]) None db1 ''What?'' 5) = - (1/2) \<and>
   clamp01 (- (1/2)) = 0"
  by (simp add: answer_question_def semantic_search_def search_body_def sample_env_def
        db1_def meta1_def error_answer_def clamp01_def result_of_def)

text \<open>
  C6 (amended): for an empty result set the answer is the fixed insufficient-information
  answer with confidence 0. For a non-empty result set the confidence is the minimum of
  the top result's score and 1 when the answer is generated (without a language model,
  or by a language model that returns), which is the clamped score when the score is
  not negative; when the language model raises, the answer is the fixed error answer
  with confidence 0.
\<close>

theorem answer_confidence:
  assumes "semantic_search env db question k = Inr rs"
  shows "(rs = [] \<longrightarrow>
            answer_question env llm db question k = insufficient_answer \<and>
            ans_confidence (answer_question env llm db question k) = 0) \<and>
         (rs = best # rest \<and> llm = None \<longrightarrow>
            ans_confidence (answer_question env llm db question k) =
              min (r_similarity_score best) 1) \<and>
         (rs = best # rest \<and> llm = Some f \<and>
          f system_prompt (user_prompt (context_of rs) question) = Inr content \<longrightarrow>
            ans_confidence (answer_question env llm db question k) =
              min (r_similarity_score best) 1) \<and>
         (rs = best # rest \<and> llm = Some f \<and>
          f system_prompt (user_prompt (context_of rs) question) = Inl e \<longrightarrow>
            answer_question env llm db question k = error_answer \<and>
            ans_confidence (answer_question env llm db question k) = 0) \<and>
         (0 \<le> r_similarity_score best \<longrightarrow>
            min (r_similarity_score best) 1 = clamp01 (r_similarity_score best))"
  using assms
  by (auto simp: answer_question_def insufficient_answer_def error_answer_def clamp01_def Let_def)

theorem answer_confidence_witness:
  "ans_confidence (answer_question (sample_env [(3/2, 10)]) None db1 ''What?'' 5) = 1 \<and>
   answer_question (sample_env [(3/2, 7)]) None db1 ''What?'' 5 = insufficient_answer"
proof -
  have 1: "semantic_search (sample_env [(3/2, 10)]) db1 ''What?'' 5 =
        Inr (result_of meta1 (3/2) # [])"
    by (simp add: semantic_search_def search_body_def sample_env_def db1_def meta1_def)
  have 2: "semantic_search (sample_env [(3/2, 7)]) db1 ''What?'' 5 = Inr []"
    by (simp add: semantic_search_def search_body_def sample_env_def db1_def meta1_def)
  from answer_confidence [OF 1, where best = "result_of meta1 (3/2)" and rest = "[]" and llm = None]
  have "ans_confidence (answer_question (sample_env [(3/2, 10)]) None db1 ''What?'' 5) =
        min (r_similarity_score (result_of meta1 (3/2))) 1"
    by blast
  moreover from answer_confidence [OF 2, where llm = None]
  have "answer_question (sample_env [(3/2, 7)]) None db1 ''What?'' 5 = insufficient_answer"
    by blast
  ultimately show ?thesis by (simp add: result_of_def)
qed

end
